theory Spec2Isabelle
  imports Complex_Main "HOL-Library.Sublist"
begin

section \<open>Values shared by the notebooks\<close>

text \<open>
  The notebooks are Python. A Python \<open>str\<close> is modelled as a \<open>string\<close> whose characters
  are the code points below 256, which covers every literal of the notebooks
  (the degree sign of \<open>Sunny, 22\<degree>C\<close> is code point 176). An exception that ends a cell is
  a value of \<open>py_error\<close>.
\<close>

datatype py_error =
    KeyError string
  | IndexError
  | ValueError
  | ValidationError
  | External string

text \<open>
  \<open>str.lower()\<close> on code points below 256: the ASCII capitals 65..90 and the Latin-1
  capitals 192..222 (without the multiplication sign 215) move up by 32; every other
  character stays.
\<close>

definition lower_char :: "char \<Rightarrow> char" where
  "lower_char c =
     (let n = (of_char c :: nat)
      in if (65 \<le> n \<and> n \<le> 90) \<or> (192 \<le> n \<and> n \<le> 222 \<and> n \<noteq> 215)
         then char_of (n + 32) else c)"

definition lower :: "string \<Rightarrow> string" where
  "lower s = map lower_char s"


section \<open>The tool-calling notebook (\<^verbatim>\<open>langchain/6_Tools/1_tools_basics.ipynb\<close>)\<close>

subsection \<open>Tool calls, messages and tools\<close>

text \<open>
  An entry of \<open>result.tool_calls\<close> is a dict with the keys \<open>name\<close>, \<open>args\<close> and \<open>id\<close>
  (and the constant \<open>type\<close>); \<open>args\<close> is the dict of keyword arguments, kept as an
  association list that is read with \<open>map_of\<close>. The values of the arguments are strings,
  as the signatures of the two tools ask.
\<close>

type_synonym tool_args = "(string \<times> string) list"

record tool_call =
  name :: string
  args :: tool_args
  call_id :: string

text \<open>
  The messages of the conversation list. \<open>ToolMessage content tool_call_id\<close> is
  \<open>ToolMessage(tool_output, tool_call_id=...)\<close>.
\<close>

datatype message =
    SystemMessage string
  | HumanMessage string
  | AIMessage string "tool_call list"
  | ToolMessage string string

text \<open>
  \<^verbatim>\<open>
  @tool
  def fake_weather_api(city: str) -> str:
      return "Sunny, 22\<degree>C"

  @tool
  def outdoor_seating_availability(city: str) -> str:
      return "Outdoor seating is available."
  \<close>
  The two functions take the city and return a constant. The decorator \<open>@tool\<close> makes of
  such a function an object whose \<open>invoke\<close> takes the dict of arguments: it raises a
  validation error when the dict has no value for the parameter of the function, and
  calls the function on that value otherwise (keys that the function does not have are
  dropped). A tool in general is any such \<open>invoke\<close>: it may raise.
\<close>

type_synonym tool = "tool_args \<Rightarrow> py_error + string"

definition fake_weather_api :: "string \<Rightarrow> string" where
  "fake_weather_api city = ''Sunny, 22'' @ [CHR 0xB0] @ ''C''"

definition outdoor_seating_availability :: "string \<Rightarrow> string" where
  "outdoor_seating_availability city = ''Outdoor seating is available.''"

definition structured_tool :: "string \<Rightarrow> (string \<Rightarrow> string) \<Rightarrow> tool" where
  "structured_tool parameter f tool_input =
     (case map_of tool_input parameter of
        None \<Rightarrow> Inl ValidationError
      | Some v \<Rightarrow> Inr (f v))"

definition tool_mapping :: "string \<rightharpoonup> tool" where
  "tool_mapping =
     [''fake_weather_api'' \<mapsto> structured_tool ''city'' fake_weather_api,
      ''outdoor_seating_availability'' \<mapsto> structured_tool ''city'' outdoor_seating_availability]"

subsection \<open>The loop over \<open>result.tool_calls\<close>\<close>

text \<open>
  \<^verbatim>\<open>
  for tool_call in result.tool_calls:
      tool = tool_mapping[tool_call["name"].lower()]
      tool_output = tool.invoke(tool_call["args"])
      messages.append(ToolMessage(tool_output, tool_call_id=tool_call["id"]))
  \<close>
  The loop mutates the list \<open>messages\<close> in place, so the state is passed explicitly and
  returned also when the loop ends in an exception: what was appended before stays
  appended. The loop ends in the \<open>KeyError\<close> of the dictionary lookup or in the error
  that \<open>tool.invoke\<close> raises. The field \<open>issued\<close> is the history of the \<open>tool.invoke\<close>
  calls made so far (the key of the tool and the arguments), in the order in which they
  were made, whether they returned or raised; the code does not read it.
\<close>

datatype api_call = Invoke string tool_args

record notebook =
  messages :: "message list"
  issued :: "api_call list"

fun route_tool_calls ::
  "(string \<rightharpoonup> tool) \<Rightarrow> tool_call list \<Rightarrow> notebook \<Rightarrow> py_error option \<times> notebook" where
  "route_tool_calls tm [] s = (None, s)"
| "route_tool_calls tm (tc # rest) s =
     (case tm (lower (name tc)) of
        None \<Rightarrow> (Some (KeyError (lower (name tc))), s)
      | Some tool \<Rightarrow>
          (case tool (args tc) of
             Inl e \<Rightarrow>
               (Some e, s\<lparr>issued := issued s @ [Invoke (lower (name tc)) (args tc)]\<rparr>)
           | Inr tool_output \<Rightarrow>
               route_tool_calls tm rest
                 (s\<lparr>issued := issued s @ [Invoke (lower (name tc)) (args tc)],
                    messages := messages s @ [ToolMessage tool_output (call_id tc)]\<rparr>)))"

text \<open>
  The conversation of the notebook before the loop runs: the question, and the model's
  reply with the two tool calls that the notebook's output shows. \<open>stock_call\<close> is a
  call to a tool that \<open>tool_mapping\<close> does not have, and \<open>bare_call\<close> a call to the
  weather tool without arguments.
\<close>

definition weather_call :: tool_call where
  "weather_call =
     \<lparr>name = ''fake_weather_api'', args = [(''city'', ''Bangalore'')],
      call_id = ''call_0MyvdnQotPWUwxWrRBSRaeYZ''\<rparr>"

definition seating_call :: tool_call where
  "seating_call =
     \<lparr>name = ''outdoor_seating_availability'', args = [(''city'', ''Bangalore'')],
      call_id = ''call_ZbDGmtMhtjnrldpQoyfNmSrc''\<rparr>"

definition stock_call :: tool_call where
  "stock_call =
     \<lparr>name = ''Get_Stock_Price'', args = [(''ticker'', ''ACME'')],
      call_id = ''call_7''\<rparr>"

definition bare_call :: tool_call where
  "bare_call = \<lparr>name = ''fake_weather_api'', args = [], call_id = ''call_8''\<rparr>"

definition notebook_start :: notebook where
  "notebook_start =
     \<lparr>messages =
        [HumanMessage
           ''How will the weather be in Bangalore today? Do you still have seats outdoor available?'',
         AIMessage [] [weather_call, seating_call]],
      issued = []\<rparr>"

text \<open>
  Readings of the body of the loop for one tool call, used by the statements below:
  \<open>mapped\<close> says that the dictionary lookup succeeds; \<open>reply\<close> is the message that the
  body appends (none when the lookup fails or the tool raises); \<open>succeeds\<close> says that
  the body appends a message; \<open>answers\<close> relates a call to the message that answers it;
  \<open>raised\<close> is the exception in which the body ends, if any; \<open>invocation\<close> is the
  \<open>tool.invoke\<close> call of the body, and \<open>invoked\<close> the invocations that the body makes.
\<close>

definition mapped :: "(string \<rightharpoonup> tool) \<Rightarrow> tool_call \<Rightarrow> bool" where
  "mapped tm tc = (lower (name tc) \<in> dom tm)"

definition reply :: "(string \<rightharpoonup> tool) \<Rightarrow> tool_call \<Rightarrow> message option" where
  "reply tm tc =
     (case tm (lower (name tc)) of
        None \<Rightarrow> None
      | Some tool \<Rightarrow>
          (case tool (args tc) of
             Inl e \<Rightarrow> None
           | Inr tool_output \<Rightarrow> Some (ToolMessage tool_output (call_id tc))))"

definition succeeds :: "(string \<rightharpoonup> tool) \<Rightarrow> tool_call \<Rightarrow> bool" where
  "succeeds tm tc = (reply tm tc \<noteq> None)"

definition answers :: "(string \<rightharpoonup> tool) \<Rightarrow> tool_call \<Rightarrow> message \<Rightarrow> bool" where
  "answers tm tc m =
     (case tm (lower (name tc)) of
        None \<Rightarrow> False
      | Some tool \<Rightarrow>
          (case tool (args tc) of
             Inl e \<Rightarrow> False
           | Inr tool_output \<Rightarrow> m = ToolMessage tool_output (call_id tc)))"

definition raised :: "(string \<rightharpoonup> tool) \<Rightarrow> tool_call \<Rightarrow> py_error option" where
  "raised tm tc =
     (case tm (lower (name tc)) of
        None \<Rightarrow> Some (KeyError (lower (name tc)))
      | Some tool \<Rightarrow>
          (case tool (args tc) of
             Inl e \<Rightarrow> Some e
           | Inr tool_output \<Rightarrow> None))"

definition invocation :: "tool_call \<Rightarrow> api_call" where
  "invocation tc = Invoke (lower (name tc)) (args tc)"

definition invoked :: "(string \<rightharpoonup> tool) \<Rightarrow> tool_call \<Rightarrow> api_call list" where
  "invoked tm tc = (if mapped tm tc then [invocation tc] else [])"


section \<open>The basics notebook (\<^verbatim>\<open>langchain/1_Basics/1-openai-code.ipynb\<close>)\<close>

text \<open>
  \<^verbatim>\<open>
  api_key = os.getenv("OPENAI_API_KEY")
  if api_key:
      print("API key found:", api_key[:4] + "..." + api_key[-4:])
  else:
      print("No API key found")
  \<close>
  \<open>os.getenv\<close> gives \<open>None\<close> for a variable that is not set. The empty string is falsy,
  so a variable set to the empty string takes the \<open>else\<close> branch. \<open>api_key[:4]\<close> is the
  first four characters (all of a shorter key) and \<open>api_key[-4:]\<close> the last four (all of
  a shorter key). \<open>print\<close> puts one blank between its two arguments; the value below is
  the printed line without its newline.
\<close>

definition api_key_check :: "string option \<Rightarrow> string" where
  "api_key_check api_key =
     (case api_key of
        None \<Rightarrow> ''No API key found''
      | Some k \<Rightarrow>
          if k \<noteq> []
          then ''API key found:'' @ '' '' @ (take 4 k @ ''...'' @ drop (length k - 4) k)
          else ''No API key found'')"


section \<open>The RAG notebook\<close>

subsection \<open>\<open>cosine_similarity\<close>\<close>

text \<open>
  \<^verbatim>\<open>
  def cosine_similarity(vec1, vec2):
      dot_product = np.dot(vec1, vec2)
      norm_vec1 = np.linalg.norm(vec1)
      norm_vec2 = np.linalg.norm(vec2)
      return dot_product / (norm_vec1 * norm_vec2)
  \<close>
  The four operations are numpy's: the dot product, the norm, and the product and the
  quotient of numpy scalars, in 64-bit floating point or integer arithmetic. Their code
  is not part of the repository, so they are parameters, over any type \<open>'v\<close> of vectors
  and any type \<open>'n\<close> of numbers, and each may raise. The function itself is the order in
  which it calls them and what it passes on.
\<close>

record ('v, 'n) numpy =
  np_dot :: "'v \<Rightarrow> 'v \<Rightarrow> py_error + 'n"
  np_linalg_norm :: "'v \<Rightarrow> py_error + 'n"
  multiply :: "'n \<Rightarrow> 'n \<Rightarrow> py_error + 'n"
  true_divide :: "'n \<Rightarrow> 'n \<Rightarrow> py_error + 'n"

definition cosine_similarity :: "('v, 'n) numpy \<Rightarrow> 'v \<Rightarrow> 'v \<Rightarrow> py_error + 'n" where
  "cosine_similarity np vec1 vec2 =
     (case np_dot np vec1 vec2 of
        Inl e \<Rightarrow> Inl e
      | Inr dot_product \<Rightarrow>
     (case np_linalg_norm np vec1 of
        Inl e \<Rightarrow> Inl e
      | Inr norm_vec1 \<Rightarrow>
     (case np_linalg_norm np vec2 of
        Inl e \<Rightarrow> Inl e
      | Inr norm_vec2 \<Rightarrow>
     (case multiply np norm_vec1 norm_vec2 of
        Inl e \<Rightarrow> Inl e
      | Inr product \<Rightarrow> true_divide np dot_product product))))"

subsection \<open>Documents and \<open>format_docs\<close>\<close>

record document =
  page_content :: string
  metadata :: "(string \<times> string) list"

text \<open>\<open>sep.join(parts)\<close> of Python.\<close>

fun str_join :: "string \<Rightarrow> string list \<Rightarrow> string" where
  "str_join sep [] = []"
| "str_join sep [x] = x"
| "str_join sep (x # y # ys) = x @ sep @ str_join sep (y # ys)"

text \<open>
  \<^verbatim>\<open>
  def format_docs(docs):
      return "\n\n".join(doc.page_content for doc in docs)
  \<close>
\<close>

definition format_docs :: "document list \<Rightarrow> string" where
  "format_docs docs = str_join ''\<newline>\<newline>'' (map page_content docs)"

subsection \<open>The cell that builds and invokes \<open>rag_chain\<close>\<close>

text \<open>
  \<^verbatim>\<open>
  loader = WebBaseLoader(web_paths=(...,), bs_kwargs=dict(parse_only=bs4.SoupStrainer(...)))
  docs = loader.load()
  text_splitter = RecursiveCharacterTextSplitter(chunk_size=1000, chunk_overlap=200)
  splits = text_splitter.split_documents(docs)
  vectorstore = Chroma.from_documents(documents=splits, embedding=OpenAIEmbeddings())
  retriever = vectorstore.as_retriever()
  prompt = hub.pull("rlm/rag-prompt")
  llm = ChatOpenAI(model_name="gpt-4o-mini", temperature=0)
  def format_docs(docs): ...
  rag_chain = (
      {"context": retriever | format_docs, "question": RunnablePassthrough()}
      | prompt | llm | StrOutputParser()
  )
  rag_chain.invoke("What is Task Decomposition?")
  \<close>
  Every library call of the cell is a stage, in the order in which the cell makes them,
  and every one may raise:
  \<^item> \<open>MakeLoader\<close>, \<open>MakeSplitter\<close>, \<open>MakeEmbeddings\<close>, \<open>MakeRetriever\<close> and
    \<open>MakeModel\<close> are the constructors \<open>WebBaseLoader\<close> (with its argument
    \<open>bs4.SoupStrainer\<close>),
    \<open>RecursiveCharacterTextSplitter\<close>, \<open>OpenAIEmbeddings\<close> (an argument of
    \<open>from_documents\<close>, so evaluated before it), \<open>as_retriever\<close> and \<open>ChatOpenAI\<close>;
  \<^item> \<open>Load\<close> is \<open>loader.load()\<close> and \<open>Split\<close> is \<open>split_documents\<close>;
  \<^item> \<open>EmbedStore\<close> is \<open>Chroma.from_documents\<close>, which embeds the splits and stores them;
  \<^item> \<open>PullPrompt\<close> is \<open>hub.pull\<close>;
  \<^item> \<open>Compose\<close> is the statement that builds the chain (\<open>RunnablePassthrough()\<close>,
    \<open>StrOutputParser()\<close> and the operators \<open>|\<close>);
  \<^item> inside \<open>rag_chain.invoke(question)\<close>, \<open>Retrieve\<close> is the retriever on the question,
    \<open>Prompt\<close> the prompt template on the dict of \<open>format_docs\<close> of the retrieved
    documents and the question, \<open>Generate\<close> the model on the prompt, and \<open>Parse\<close> the
    output parser on the model's message.
  What the calls do is the fields of \<open>framework\<close>: the code of the libraries is not part
  of the repository. The objects of the libraries (loader, splitter, embeddings, vector
  store, retriever, prompt template, model, prompt, message) are values of one type
  \<open>'o\<close>. The \<open>import\<close> statements at the head of the cell and the definition of
  \<open>format_docs\<close> only bind names and are not stages. The cell has no \<open>try\<close>: the first
  exception ends it. A run is a \<open>step\<close>: it extends the list of the stages called so far
  and gives an error or a value.
\<close>

datatype stage =
    MakeLoader | Load | MakeSplitter | Split | MakeEmbeddings | EmbedStore | MakeRetriever
  | PullPrompt | MakeModel | Compose | Retrieve | Prompt | Generate | Parse

record 'o framework =
  web_base_loader :: "py_error + 'o"
  load :: "'o \<Rightarrow> py_error + document list"
  recursive_character_text_splitter :: "py_error + 'o"
  split_documents :: "'o \<Rightarrow> document list \<Rightarrow> py_error + document list"
  openai_embeddings :: "py_error + 'o"
  from_documents :: "document list \<Rightarrow> 'o \<Rightarrow> py_error + 'o"
  as_retriever :: "'o \<Rightarrow> py_error + 'o"
  hub_pull :: "py_error + 'o"
  chat_openai :: "py_error + 'o"
  compose :: "py_error + unit"
  retriever_invoke :: "'o \<Rightarrow> string \<Rightarrow> py_error + document list"
  prompt_invoke :: "'o \<Rightarrow> string \<Rightarrow> string \<Rightarrow> py_error + 'o"
  llm_invoke :: "'o \<Rightarrow> 'o \<Rightarrow> py_error + 'o"
  parser_invoke :: "'o \<Rightarrow> py_error + string"

type_synonym 'a step = "stage list \<Rightarrow> stage list \<times> (py_error + 'a)"

definition call :: "stage \<Rightarrow> py_error + 'a \<Rightarrow> 'a step" where
  "call st r called = (called @ [st], r)"

definition and_then :: "'a step \<Rightarrow> ('a \<Rightarrow> 'b step) \<Rightarrow> 'b step" where
  "and_then m f called =
     (case m called of
        (called', Inl e) \<Rightarrow> (called', Inl e)
      | (called', Inr x) \<Rightarrow> f x called')"

definition rag_chain :: "'o framework \<Rightarrow> string \<Rightarrow> string step" where
  "rag_chain fw question =
     and_then (call MakeLoader (web_base_loader fw)) (\<lambda>loader.
     and_then (call Load (load fw loader)) (\<lambda>docs.
     and_then (call MakeSplitter (recursive_character_text_splitter fw)) (\<lambda>text_splitter.
     and_then (call Split (split_documents fw text_splitter docs)) (\<lambda>splits.
     and_then (call MakeEmbeddings (openai_embeddings fw)) (\<lambda>embedding.
     and_then (call EmbedStore (from_documents fw splits embedding)) (\<lambda>vectorstore.
     and_then (call MakeRetriever (as_retriever fw vectorstore)) (\<lambda>retriever.
     and_then (call PullPrompt (hub_pull fw)) (\<lambda>prompt.
     and_then (call MakeModel (chat_openai fw)) (\<lambda>llm.
     and_then (call Compose (compose fw)) (\<lambda>composed.
     and_then (call Retrieve (retriever_invoke fw retriever question)) (\<lambda>retrieved.
     and_then (call Prompt (prompt_invoke fw prompt (format_docs retrieved) question)) (\<lambda>prompt_value.
     and_then (call Generate (llm_invoke fw llm prompt_value)) (\<lambda>msg.
     call Parse (parser_invoke fw msg))))))))))))))"

subsection \<open>The cell that answers from the first search result\<close>

text \<open>
  \<^verbatim>\<open>
  query = "What is Malcolm?"
  docs = db.similarity_search(query)
  ...
  context = docs[0].page_content
  prompt = PromptTemplate.from_template(
      "Based on the following context, answer the question:\n\n{context}\n\nQuestion: {query}\nAnswer:")
  answer = llm.invoke(prompt.format(context=context, query=query))
  \<close>
  \<open>prompt.format\<close> puts the two values in the places of the template. The search of the
  vector store and the model are the library's and are parameters; \<open>docs[0]\<close> raises
  \<open>IndexError\<close> on an empty result.
\<close>

definition prompt_format :: "string \<Rightarrow> string \<Rightarrow> string" where
  "prompt_format context query =
     ''Based on the following context, answer the question:\<newline>\<newline>'' @ context @
     ''\<newline>\<newline>Question: '' @ query @ ''\<newline>Answer:''"

definition answer :: "(string \<Rightarrow> document list) \<Rightarrow> (string \<Rightarrow> 'm) \<Rightarrow> string \<Rightarrow> py_error + 'm" where
  "answer similarity_search llm query =
     (case similarity_search query of
        [] \<Rightarrow> Inl IndexError
      | d # _ \<Rightarrow> Inr (llm (prompt_format (page_content d) query)))"


section \<open>Stand-ins for the libraries, for the concrete runs below\<close>

text \<open>
  The libraries of a run in which every call returns: their objects are named by
  strings, the retriever finds two documents, the prompt template writes the question
  before the context, the model answers with its prompt and the parser gives the text
  of the message. \<open>keyless_framework\<close> is the same without an API key: the constructor
  of the model raises.
\<close>

definition agent_post :: document where
  "agent_post = \<lparr>page_content = ''Task decomposition splits a task.'', metadata = []\<rparr>"

definition planning_post :: document where
  "planning_post = \<lparr>page_content = ''Planning orders the steps.'', metadata = []\<rparr>"

definition two_documents :: "string \<Rightarrow> string \<Rightarrow> py_error + document list" where
  "two_documents retriever question = Inr [agent_post, planning_post]"

definition question_then_context :: "string \<Rightarrow> string \<Rightarrow> string \<Rightarrow> py_error + string" where
  "question_then_context prompt context question = Inr (question @ '' '' @ context)"

definition echo :: "string \<Rightarrow> string \<Rightarrow> py_error + string" where
  "echo llm prompt_value = Inr prompt_value"

definition echo_framework :: "string framework" where
  "echo_framework =
     \<lparr>web_base_loader = Inr ''loader'',
      load = (\<lambda>loader. Inr [agent_post, planning_post]),
      recursive_character_text_splitter = Inr ''text_splitter'',
      split_documents = (\<lambda>text_splitter docs. Inr docs),
      openai_embeddings = Inr ''embedding'',
      from_documents = (\<lambda>splits embedding. Inr ''vectorstore''),
      as_retriever = (\<lambda>vectorstore. Inr ''retriever''),
      hub_pull = Inr ''prompt'',
      chat_openai = Inr ''llm'',
      compose = Inr (),
      retriever_invoke = two_documents,
      prompt_invoke = question_then_context,
      llm_invoke = echo,
      parser_invoke = Inr\<rparr>"

definition keyless_framework :: "string framework" where
  "keyless_framework = echo_framework\<lparr>chat_openai := Inl (External ''no API key'')\<rparr>"

text \<open>
  What numpy returns for the vector \<open>(3, 4)\<close> with itself: the dot product \<open>25\<close>, the
  norm \<open>5\<close>, the product of the norms \<open>25\<close> and the quotient \<open>1\<close>. \<open>misaligned\<close> is numpy
  on two vectors of different lengths: the dot product raises \<open>ValueError\<close>.
\<close>

definition three_four :: "(int list, int) numpy" where
  "three_four =
     \<lparr>np_dot = (\<lambda>vec1 vec2. Inr 25),
      np_linalg_norm = (\<lambda>vec. Inr 5),
      multiply = (\<lambda>x y. Inr 25),
      true_divide = (\<lambda>x y. Inr 1)\<rparr>"

definition misaligned :: "(int list, int) numpy" where
  "misaligned = three_four\<lparr>np_dot := (\<lambda>vec1 vec2. Inl ValueError)\<rparr>"





section \<open>Facts about the routing loop\<close>

lemma lower_fake_weather_api: "lower ''fake_weather_api'' = ''fake_weather_api''"
  by code_simp

lemma lower_outdoor_seating_availability:
  "lower ''outdoor_seating_availability'' = ''outdoor_seating_availability''"
  by code_simp

lemma lower_get_stock_price: "lower ''Get_Stock_Price'' = ''get_stock_price''"
  by code_simp

text \<open>
  The loop as a whole: it works through the longest prefix of calls for which the body
  appends a message, and then either is done or ends in the exception of the next call,
  after invoking its tool if the lookup succeeded.
\<close>

lemma route_tool_calls_run:
  "route_tool_calls tm tcs s =
     ((case dropWhile (succeeds tm) tcs of
         [] \<Rightarrow> None
       | tc # _ \<Rightarrow> raised tm tc),
      s\<lparr>issued := issued s @ map invocation (takeWhile (succeeds tm) tcs) @
           (case dropWhile (succeeds tm) tcs of
              [] \<Rightarrow> []
            | tc # _ \<Rightarrow> invoked tm tc),
         messages := messages s @ List.map_filter (reply tm) (takeWhile (succeeds tm) tcs)\<rparr>)"
proof (induction tcs arbitrary: s)
  case Nil
  then show ?case by (simp add: map_filter_simps)
next
  case (Cons tc tcs)
  show ?case
  proof (cases "tm (lower (name tc))")
    case None
    then show ?thesis
      by (simp add: succeeds_def reply_def raised_def invoked_def mapped_def dom_def
          map_filter_simps)
  next
    case (Some tool)
    show ?thesis
    proof (cases "tool (args tc)")
      case (Inl e)
      with Some show ?thesis
        by (simp add: succeeds_def reply_def raised_def invoked_def mapped_def dom_def
            invocation_def map_filter_simps)
    next
      case (Inr tool_output)
      with Some have "succeeds tm tc" and "reply tm tc = Some (ToolMessage tool_output (call_id tc))"
        by (simp_all add: succeeds_def reply_def)
      with Some Inr show ?thesis
        by (simp add: Cons.IH invocation_def map_filter_simps)
    qed
  qed
qed

lemma answers_iff_reply: "answers tm tc m \<longleftrightarrow> reply tm tc = Some m"
  by (auto simp: answers_def reply_def split: option.splits sum.splits)

lemma list_all2_answers_reply:
  "list_all (succeeds tm) tcs \<Longrightarrow> list_all2 (answers tm) tcs (List.map_filter (reply tm) tcs)"
proof (induction tcs)
  case Nil
  then show ?case by (simp add: map_filter_simps)
next
  case (Cons tc tcs)
  from Cons.prems obtain m where m: "reply tm tc = Some m"
    by (auto simp: succeeds_def)
  from Cons.prems have "list_all (succeeds tm) tcs" by simp
  with Cons.IH m show ?case
    by (simp add: map_filter_simps answers_iff_reply)
qed

lemma list_all_takeWhile: "list_all P (takeWhile P xs)"
  by (induction xs) simp_all

lemma invoked_of_first:
  "(case xs of [] \<Rightarrow> [] | tc # after \<Rightarrow> invoked tm tc) =
   (case xs of [] \<Rightarrow> [] | tc # after \<Rightarrow> if mapped tm tc then [invocation tc] else [])"
  by (cases xs) (simp_all add: invoked_def)

text \<open>
  The notebook's mapping has the key of the weather tool, but the weather tool raises on
  a call without a city: every name is mapped, the loop ends in the validation error and
  no message has been appended.
\<close>

theorem route_tool_calls_pairing_counterexample:
  "list_all (mapped tool_mapping) [bare_call] \<and>
   fst (route_tool_calls tool_mapping [bare_call] notebook_start) = Some ValidationError \<and>
   messages (snd (route_tool_calls tool_mapping [bare_call] notebook_start)) =
     messages notebook_start"
  by (simp add: mapped_def tool_mapping_def bare_call_def lower_fake_weather_api
      structured_tool_def)

text \<open>
  C9, as amended. When for every tool call the lowercased name is a key of the mapping
  and the mapped tool returns an output on the call's arguments, the loop ends without
  an error and has appended exactly one message per tool call, in the order of the tool
  calls; each of them is the \<open>ToolMessage\<close> whose content is the output of the mapped
  tool on the call's arguments and whose \<open>tool_call_id\<close> is the call's id. Otherwise the
  loop ends at the first tool call whose lookup fails or whose tool raises, in the
  \<open>KeyError\<close> of the lowercased name when the lookup failed and in the error of the
  tool otherwise; the calls before it have been answered in the same way, and no
  message has been appended for it or for a call after it.
\<close>

theorem route_tool_calls_pairing:
  "(list_all (succeeds tm) tool_calls \<longrightarrow>
      (\<exists>appended.
         route_tool_calls tm tool_calls s =
           (None, s\<lparr>issued := issued s @ map invocation tool_calls,
                    messages := messages s @ appended\<rparr>) \<and>
         list_all2 (answers tm) tool_calls appended)) \<and>
   (\<not> list_all (succeeds tm) tool_calls \<longrightarrow>
      (\<exists>before tc after appended.
         tool_calls = before @ tc # after \<and>
         list_all (succeeds tm) before \<and>
         \<not> succeeds tm tc \<and>
         fst (route_tool_calls tm tool_calls s) = raised tm tc \<and>
         (if mapped tm tc
          then \<exists>tool e. tm (lower (name tc)) = Some tool \<and> tool (args tc) = Inl e \<and>
                 raised tm tc = Some e
          else raised tm tc = Some (KeyError (lower (name tc)))) \<and>
         messages (snd (route_tool_calls tm tool_calls s)) = messages s @ appended \<and>
         list_all2 (answers tm) before appended))"
proof (intro conjI impI)
  assume all: "list_all (succeeds tm) tool_calls"
  then have tw: "takeWhile (succeeds tm) tool_calls = tool_calls"
    and dw: "dropWhile (succeeds tm) tool_calls = []"
    by (simp_all add: list_all_iff)
  have "route_tool_calls tm tool_calls s =
      (None, s\<lparr>issued := issued s @ map invocation tool_calls,
               messages := messages s @ List.map_filter (reply tm) tool_calls\<rparr>)"
    by (simp add: route_tool_calls_run tw dw)
  with list_all2_answers_reply [OF all]
  show "\<exists>appended.
         route_tool_calls tm tool_calls s =
           (None, s\<lparr>issued := issued s @ map invocation tool_calls,
                    messages := messages s @ appended\<rparr>) \<and>
         list_all2 (answers tm) tool_calls appended"
    by blast
next
  assume some: "\<not> list_all (succeeds tm) tool_calls"
  define before where "before = takeWhile (succeeds tm) tool_calls"
  from some have "dropWhile (succeeds tm) tool_calls \<noteq> []"
    by (simp add: list_all_iff)
  then obtain tc after where post: "dropWhile (succeeds tm) tool_calls = tc # after"
    by (cases "dropWhile (succeeds tm) tool_calls") auto
  have split: "tool_calls = before @ tc # after"
    using takeWhile_dropWhile_id [of "succeeds tm" tool_calls] by (simp add: before_def post)
  have pre: "list_all (succeeds tm) before"
    by (simp add: before_def list_all_takeWhile)
  have bad: "\<not> succeeds tm tc"
    using hd_dropWhile [of "succeeds tm" tool_calls] post by simp
  have err: "fst (route_tool_calls tm tool_calls s) = raised tm tc"
    by (simp add: route_tool_calls_run post)
  have kind: "if mapped tm tc
          then \<exists>tool e. tm (lower (name tc)) = Some tool \<and> tool (args tc) = Inl e \<and>
                 raised tm tc = Some e
          else raised tm tc = Some (KeyError (lower (name tc)))"
    using bad
    by (auto simp: succeeds_def reply_def raised_def mapped_def dom_def
        split: option.splits sum.splits)
  have msgs: "messages (snd (route_tool_calls tm tool_calls s)) =
      messages s @ List.map_filter (reply tm) before"
    by (simp add: route_tool_calls_run before_def)
  from split pre bad err kind msgs list_all2_answers_reply [OF pre]
  show "\<exists>before tc after appended.
         tool_calls = before @ tc # after \<and>
         list_all (succeeds tm) before \<and>
         \<not> succeeds tm tc \<and>
         fst (route_tool_calls tm tool_calls s) = raised tm tc \<and>
         (if mapped tm tc
          then \<exists>tool e. tm (lower (name tc)) = Some tool \<and> tool (args tc) = Inl e \<and>
                 raised tm tc = Some e
          else raised tm tc = Some (KeyError (lower (name tc)))) \<and>
         messages (snd (route_tool_calls tm tool_calls s)) = messages s @ appended \<and>
         list_all2 (answers tm) before appended"
    by blast
qed

text \<open>
  The cases of C9 on the notebook's own mapping: the two tool calls that the notebook's
  output shows; a list whose second call names a tool that is not mapped; and a list
  whose second call has no city.
\<close>

theorem route_tool_calls_pairing_witness:
  "list_all (succeeds tool_mapping) [weather_call, seating_call] \<and>
   route_tool_calls tool_mapping [weather_call, seating_call] notebook_start =
     (None, notebook_start
        \<lparr>issued := issued notebook_start @ map invocation [weather_call, seating_call],
         messages := messages notebook_start @
           [ToolMessage (''Sunny, 22'' @ [CHR 0xB0] @ ''C'') ''call_0MyvdnQotPWUwxWrRBSRaeYZ'',
            ToolMessage ''Outdoor seating is available.'' ''call_ZbDGmtMhtjnrldpQoyfNmSrc'']\<rparr>) \<and>
   \<not> list_all (succeeds tool_mapping) [weather_call, stock_call, seating_call] \<and>
   fst (route_tool_calls tool_mapping [weather_call, stock_call, seating_call] notebook_start) =
     Some (KeyError ''get_stock_price'') \<and>
   \<not> list_all (succeeds tool_mapping) [weather_call, bare_call, seating_call] \<and>
   fst (route_tool_calls tool_mapping [weather_call, bare_call, seating_call] notebook_start) =
     Some ValidationError \<and>
   (\<exists>before tc after appended.
      [weather_call, bare_call, seating_call] = before @ tc # after \<and>
      list_all (succeeds tool_mapping) before \<and>
      \<not> succeeds tool_mapping tc \<and>
      fst (route_tool_calls tool_mapping [weather_call, bare_call, seating_call] notebook_start) =
        raised tool_mapping tc \<and>
      messages (snd (route_tool_calls tool_mapping [weather_call, bare_call, seating_call]
        notebook_start)) = messages notebook_start @ appended \<and>
      list_all2 (answers tool_mapping) before appended)"
proof -
  have w: "succeeds tool_mapping weather_call" and sc: "succeeds tool_mapping seating_call"
    and st: "\<not> succeeds tool_mapping stock_call" and b: "\<not> succeeds tool_mapping bare_call"
    by (simp_all add: succeeds_def reply_def tool_mapping_def structured_tool_def
        weather_call_def seating_call_def stock_call_def bare_call_def
        lower_fake_weather_api lower_outdoor_seating_availability lower_get_stock_price)
  have a: "list_all (succeeds tool_mapping) [weather_call, seating_call]"
    using w sc by simp
  have n1: "\<not> list_all (succeeds tool_mapping) [weather_call, stock_call, seating_call]"
    using st by simp
  have n2: "\<not> list_all (succeeds tool_mapping) [weather_call, bare_call, seating_call]"
    using b by simp
  have run: "route_tool_calls tool_mapping [weather_call, seating_call] notebook_start =
     (None, notebook_start
        \<lparr>issued := issued notebook_start @ map invocation [weather_call, seating_call],
         messages := messages notebook_start @
           [ToolMessage (''Sunny, 22'' @ [CHR 0xB0] @ ''C'') ''call_0MyvdnQotPWUwxWrRBSRaeYZ'',
            ToolMessage ''Outdoor seating is available.'' ''call_ZbDGmtMhtjnrldpQoyfNmSrc'']\<rparr>)"
    by (simp add: tool_mapping_def structured_tool_def weather_call_def seating_call_def
        invocation_def lower_fake_weather_api lower_outdoor_seating_availability
        fake_weather_api_def outdoor_seating_availability_def)
  have e1: "fst (route_tool_calls tool_mapping [weather_call, stock_call, seating_call] notebook_start) =
     Some (KeyError ''get_stock_price'')"
    by (simp add: tool_mapping_def structured_tool_def weather_call_def stock_call_def
        lower_fake_weather_api lower_get_stock_price)
  have e2: "fst (route_tool_calls tool_mapping [weather_call, bare_call, seating_call] notebook_start) =
     Some ValidationError"
    by (simp add: tool_mapping_def structured_tool_def weather_call_def bare_call_def
        lower_fake_weather_api)
  from n2 route_tool_calls_pairing [of tool_mapping "[weather_call, bare_call, seating_call]" notebook_start]
  have ex: "\<exists>before tc after appended.
      [weather_call, bare_call, seating_call] = before @ tc # after \<and>
      list_all (succeeds tool_mapping) before \<and>
      \<not> succeeds tool_mapping tc \<and>
      fst (route_tool_calls tool_mapping [weather_call, bare_call, seating_call] notebook_start) =
        raised tool_mapping tc \<and>
      messages (snd (route_tool_calls tool_mapping [weather_call, bare_call, seating_call]
        notebook_start)) = messages notebook_start @ appended \<and>
      list_all2 (answers tool_mapping) before appended"
    by blast
  from a run n1 e1 n2 e2 ex show ?thesis
    by blast
qed

text \<open>
  X2. The loop is not all-or-nothing: whether or not it ends in an exception, the
  messages that answer the calls before the first call that fails have been appended,
  in order, and nothing else has.
\<close>

theorem route_tool_calls_keeps_prefix:
  "\<exists>appended.
     messages (snd (route_tool_calls tm tool_calls s)) = messages s @ appended \<and>
     list_all2 (answers tm) (takeWhile (succeeds tm) tool_calls) appended"
proof -
  have "list_all2 (answers tm) (takeWhile (succeeds tm) tool_calls)
      (List.map_filter (reply tm) (takeWhile (succeeds tm) tool_calls))"
    by (rule list_all2_answers_reply) (rule list_all_takeWhile)
  moreover have "messages (snd (route_tool_calls tm tool_calls s)) =
      messages s @ List.map_filter (reply tm) (takeWhile (succeeds tm) tool_calls)"
    by (simp add: route_tool_calls_run)
  ultimately show ?thesis by blast
qed

theorem route_tool_calls_keeps_prefix_witness:
  "fst (route_tool_calls tool_mapping [weather_call, stock_call, seating_call] notebook_start) =
     Some (KeyError ''get_stock_price'') \<and>
   messages (snd (route_tool_calls tool_mapping [weather_call, stock_call, seating_call] notebook_start)) =
     messages notebook_start @
     [ToolMessage (''Sunny, 22'' @ [CHR 0xB0] @ ''C'') ''call_0MyvdnQotPWUwxWrRBSRaeYZ''] \<and>
   (\<exists>appended.
      messages (snd (route_tool_calls tool_mapping [weather_call, stock_call, seating_call] notebook_start)) =
        messages notebook_start @ appended \<and>
      list_all2 (answers tool_mapping)
        (takeWhile (succeeds tool_mapping) [weather_call, stock_call, seating_call]) appended)"
proof -
  have e: "fst (route_tool_calls tool_mapping [weather_call, stock_call, seating_call] notebook_start) =
     Some (KeyError ''get_stock_price'')"
    by (simp add: tool_mapping_def structured_tool_def weather_call_def stock_call_def
        lower_fake_weather_api lower_get_stock_price)
  have m: "messages (snd (route_tool_calls tool_mapping [weather_call, stock_call, seating_call] notebook_start)) =
     messages notebook_start @
     [ToolMessage (''Sunny, 22'' @ [CHR 0xB0] @ ''C'') ''call_0MyvdnQotPWUwxWrRBSRaeYZ'']"
    by (simp add: tool_mapping_def structured_tool_def weather_call_def stock_call_def
        fake_weather_api_def lower_fake_weather_api lower_get_stock_price)
  from e m
    route_tool_calls_keeps_prefix
      [of tool_mapping "[weather_call, stock_call, seating_call]" notebook_start]
  show ?thesis by blast
qed

text \<open>
  The run of the notebook: on the two tool calls of the model's reply, the loop of the
  notebook looks both tools up, invokes them and appends their outputs as tool messages.
  The resulting conversation is the one that the notebook's output shows.
\<close>

theorem tool_mapping_routes_counterexample:
  "route_tool_calls tool_mapping [weather_call, seating_call] notebook_start =
     (None,
      \<lparr>messages =
         [HumanMessage
            ''How will the weather be in Bangalore today? Do you still have seats outdoor available?'',
          AIMessage [] [weather_call, seating_call],
          ToolMessage (''Sunny, 22'' @ [CHR 0xB0] @ ''C'') ''call_0MyvdnQotPWUwxWrRBSRaeYZ'',
          ToolMessage ''Outdoor seating is available.'' ''call_ZbDGmtMhtjnrldpQoyfNmSrc''],
       issued =
         [Invoke ''fake_weather_api'' [(''city'', ''Bangalore'')],
          Invoke ''outdoor_seating_availability'' [(''city'', ''Bangalore'')]]\<rparr>)"
  by (simp add: tool_mapping_def structured_tool_def weather_call_def seating_call_def
      notebook_start_def lower_fake_weather_api lower_outdoor_seating_availability
      fake_weather_api_def outdoor_seating_availability_def)

text \<open>
  C1, as amended. The model only names the tools. For each tool call the loop of the
  notebook lowercases the name and looks it up in \<open>tool_mapping\<close>. For a name other than
  \<open>fake_weather_api\<close> and \<open>outdoor_seating_availability\<close> it raises \<open>KeyError\<close>. For
  these two it invokes the tool on the call's arguments: when the arguments have no
  \<open>city\<close> the invocation raises a validation error and the loop ends with nothing
  appended for this call; otherwise the loop appends the output of the tool as a
  \<open>ToolMessage\<close> with the call's id and goes on with the remaining calls. Without tool
  calls it does nothing.
\<close>

theorem tool_mapping_routes_by_name:
  "route_tool_calls tool_mapping [] s = (None, s) \<and>
   route_tool_calls tool_mapping (tc # rest) s =
     (if lower (name tc) = ''fake_weather_api''
      then (case map_of (args tc) ''city'' of
              None \<Rightarrow>
                (Some ValidationError,
                 s\<lparr>issued := issued s @ [Invoke ''fake_weather_api'' (args tc)]\<rparr>)
            | Some city \<Rightarrow>
                route_tool_calls tool_mapping rest
                  (s\<lparr>issued := issued s @ [Invoke ''fake_weather_api'' (args tc)],
                     messages := messages s @
                       [ToolMessage (''Sunny, 22'' @ [CHR 0xB0] @ ''C'') (call_id tc)]\<rparr>))
      else if lower (name tc) = ''outdoor_seating_availability''
      then (case map_of (args tc) ''city'' of
              None \<Rightarrow>
                (Some ValidationError,
                 s\<lparr>issued := issued s @ [Invoke ''outdoor_seating_availability'' (args tc)]\<rparr>)
            | Some city \<Rightarrow>
                route_tool_calls tool_mapping rest
                  (s\<lparr>issued := issued s @ [Invoke ''outdoor_seating_availability'' (args tc)],
                     messages := messages s @
                       [ToolMessage ''Outdoor seating is available.'' (call_id tc)]\<rparr>))
      else (Some (KeyError (lower (name tc))), s))"
  by (simp add: tool_mapping_def structured_tool_def fake_weather_api_def
      outdoor_seating_availability_def split: option.splits)

text \<open>
  The first step of the notebook's run, and the run on a call without a city, by this
  equation.
\<close>

theorem tool_mapping_routes_by_name_witness:
  "route_tool_calls tool_mapping (weather_call # [seating_call]) notebook_start =
     route_tool_calls tool_mapping [seating_call]
       (notebook_start
          \<lparr>issued := issued notebook_start @ [Invoke ''fake_weather_api'' (args weather_call)],
           messages := messages notebook_start @
             [ToolMessage (''Sunny, 22'' @ [CHR 0xB0] @ ''C'') (call_id weather_call)]\<rparr>) \<and>
   route_tool_calls tool_mapping (bare_call # [seating_call]) notebook_start =
     (Some ValidationError,
      notebook_start\<lparr>issued := issued notebook_start @ [Invoke ''fake_weather_api'' (args bare_call)]\<rparr>)"
proof -
  have n: "lower (name weather_call) = ''fake_weather_api''"
    and c: "map_of (args weather_call) ''city'' = Some ''Bangalore''"
    by (simp_all add: weather_call_def lower_fake_weather_api)
  have n': "lower (name bare_call) = ''fake_weather_api''"
    and c': "map_of (args bare_call) ''city'' = None"
    by (simp_all add: bare_call_def lower_fake_weather_api)
  from tool_mapping_routes_by_name [of notebook_start weather_call "[seating_call]", THEN conjunct2]
  have "route_tool_calls tool_mapping (weather_call # [seating_call]) notebook_start =
     route_tool_calls tool_mapping [seating_call]
       (notebook_start
          \<lparr>issued := issued notebook_start @ [Invoke ''fake_weather_api'' (args weather_call)],
           messages := messages notebook_start @
             [ToolMessage (''Sunny, 22'' @ [CHR 0xB0] @ ''C'') (call_id weather_call)]\<rparr>)"
    by (simp only: n c if_True option.case simp_thms)
  moreover
  from tool_mapping_routes_by_name [of notebook_start bare_call "[seating_call]", THEN conjunct2]
  have "route_tool_calls tool_mapping (bare_call # [seating_call]) notebook_start =
     (Some ValidationError,
      notebook_start\<lparr>issued := issued notebook_start @ [Invoke ''fake_weather_api'' (args bare_call)]\<rparr>)"
    by (simp only: n' c' if_True option.case simp_thms)
  ultimately show ?thesis by blast
qed

text \<open>
  The sequence of \<open>tool.invoke\<close> calls is not fixed by the text of the notebook: the two
  tool calls in the other order give the two invocations in the other order, and no
  tool call gives no invocation.
\<close>

theorem issued_calls_counterexample:
  "issued (snd (route_tool_calls tool_mapping [weather_call, seating_call] notebook_start)) =
     [Invoke ''fake_weather_api'' [(''city'', ''Bangalore'')],
      Invoke ''outdoor_seating_availability'' [(''city'', ''Bangalore'')]] \<and>
   issued (snd (route_tool_calls tool_mapping [seating_call, weather_call] notebook_start)) =
     [Invoke ''outdoor_seating_availability'' [(''city'', ''Bangalore'')],
      Invoke ''fake_weather_api'' [(''city'', ''Bangalore'')]] \<and>
   issued (snd (route_tool_calls tool_mapping [] notebook_start)) = []"
  by (simp add: tool_mapping_def structured_tool_def weather_call_def seating_call_def
      notebook_start_def lower_fake_weather_api lower_outdoor_seating_availability)

text \<open>
  C6, as amended. The loop over \<open>result.tool_calls\<close> is control flow of the notebook
  that decides which \<open>tool.invoke\<close> calls are made and in which order: one per tool
  call, in the order of the list that the model returned, for the calls up to the first
  one that fails; for that call the tool is still invoked when its name is mapped (and
  the invocation raises), and not when the lookup fails; no call after it is invoked.
  The messages appended are the answers of the calls before it. The \<open>if api_key\<close> of
  the basics notebook only selects the line that is printed: it is
  \<open>No API key found\<close> exactly when the key is not set or is the empty string.
\<close>

theorem issued_calls_follow_tool_calls:
  "issued (snd (route_tool_calls tm tcs s)) =
     issued s @ map invocation (takeWhile (succeeds tm) tcs) @
     (case dropWhile (succeeds tm) tcs of
        [] \<Rightarrow> []
      | tc # after \<Rightarrow> if mapped tm tc then [invocation tc] else []) \<and>
   (\<exists>appended.
      messages (snd (route_tool_calls tm tcs s)) = messages s @ appended \<and>
      list_all2 (answers tm) (takeWhile (succeeds tm) tcs) appended) \<and>
   (api_key_check api_key = ''No API key found'' \<longleftrightarrow> api_key = None \<or> api_key = Some [])"
proof (intro conjI)
  show "issued (snd (route_tool_calls tm tcs s)) =
     issued s @ map invocation (takeWhile (succeeds tm) tcs) @
     (case dropWhile (succeeds tm) tcs of
        [] \<Rightarrow> []
      | tc # after \<Rightarrow> if mapped tm tc then [invocation tc] else [])"
    by (simp add: route_tool_calls_run invoked_of_first)
  have "list_all2 (answers tm) (takeWhile (succeeds tm) tcs)
      (List.map_filter (reply tm) (takeWhile (succeeds tm) tcs))"
    by (rule list_all2_answers_reply) (rule list_all_takeWhile)
  moreover have "messages (snd (route_tool_calls tm tcs s)) =
      messages s @ List.map_filter (reply tm) (takeWhile (succeeds tm) tcs)"
    by (simp add: route_tool_calls_run)
  ultimately show "\<exists>appended.
      messages (snd (route_tool_calls tm tcs s)) = messages s @ appended \<and>
      list_all2 (answers tm) (takeWhile (succeeds tm) tcs) appended"
    by blast
  show "api_key_check api_key = ''No API key found'' \<longleftrightarrow> api_key = None \<or> api_key = Some []"
    by (auto simp: api_key_check_def split: option.splits)
qed

text \<open>
  Three replies of the model: one whose second tool call is not mapped, so that only the
  first call is invoked; one whose second tool call has no city, so that it is invoked
  and the third is not; and the key that is set to the empty string.
\<close>

theorem issued_calls_follow_tool_calls_witness:
  "issued (snd (route_tool_calls tool_mapping [seating_call, stock_call, weather_call] notebook_start)) =
     [Invoke ''outdoor_seating_availability'' [(''city'', ''Bangalore'')]] \<and>
   issued (snd (route_tool_calls tool_mapping [weather_call, bare_call, seating_call] notebook_start)) =
     [Invoke ''fake_weather_api'' [(''city'', ''Bangalore'')], Invoke ''fake_weather_api'' []] \<and>
   api_key_check (Some []) = ''No API key found''"
proof -
  have w: "succeeds tool_mapping weather_call" and sc: "succeeds tool_mapping seating_call"
    and st: "\<not> succeeds tool_mapping stock_call" and b: "\<not> succeeds tool_mapping bare_call"
    by (simp_all add: succeeds_def reply_def tool_mapping_def structured_tool_def
        weather_call_def seating_call_def stock_call_def bare_call_def
        lower_fake_weather_api lower_outdoor_seating_availability lower_get_stock_price)
  have ms: "\<not> mapped tool_mapping stock_call" and mb: "mapped tool_mapping bare_call"
    by (simp_all add: mapped_def tool_mapping_def stock_call_def bare_call_def
        lower_fake_weather_api lower_get_stock_price)
  have i: "issued notebook_start = []"
    by (simp add: notebook_start_def)
  have inv: "invocation seating_call = Invoke ''outdoor_seating_availability'' [(''city'', ''Bangalore'')]"
    "invocation weather_call = Invoke ''fake_weather_api'' [(''city'', ''Bangalore'')]"
    "invocation bare_call = Invoke ''fake_weather_api'' []"
    by (simp_all add: invocation_def seating_call_def weather_call_def bare_call_def
        lower_fake_weather_api lower_outdoor_seating_availability)
  note run1 = issued_calls_follow_tool_calls
         [of tool_mapping "[seating_call, stock_call, weather_call]" notebook_start "Some []"]
  note run2 = issued_calls_follow_tool_calls
         [of tool_mapping "[weather_call, bare_call, seating_call]" notebook_start "Some []"]
  from run1 have key: "api_key_check (Some []) = ''No API key found''"
    by blast
  from run1 have "issued (snd (route_tool_calls tool_mapping [seating_call, stock_call, weather_call] notebook_start)) =
      issued notebook_start @ map invocation (takeWhile (succeeds tool_mapping) [seating_call, stock_call, weather_call]) @
      (case dropWhile (succeeds tool_mapping) [seating_call, stock_call, weather_call] of
         [] \<Rightarrow> []
       | tc # after \<Rightarrow> if mapped tool_mapping tc then [invocation tc] else [])"
    by blast
  also have "\<dots> = [Invoke ''outdoor_seating_availability'' [(''city'', ''Bangalore'')]]"
    by (simp add: w sc st b ms mb i inv)
  finally have r1: "issued (snd (route_tool_calls tool_mapping [seating_call, stock_call, weather_call] notebook_start)) =
     [Invoke ''outdoor_seating_availability'' [(''city'', ''Bangalore'')]]" .
  from run2 have "issued (snd (route_tool_calls tool_mapping [weather_call, bare_call, seating_call] notebook_start)) =
      issued notebook_start @ map invocation (takeWhile (succeeds tool_mapping) [weather_call, bare_call, seating_call]) @
      (case dropWhile (succeeds tool_mapping) [weather_call, bare_call, seating_call] of
         [] \<Rightarrow> []
       | tc # after \<Rightarrow> if mapped tool_mapping tc then [invocation tc] else [])"
    by blast
  also have "\<dots> = [Invoke ''fake_weather_api'' [(''city'', ''Bangalore'')], Invoke ''fake_weather_api'' []]"
    by (simp add: w sc st b ms mb i inv)
  finally have r2: "issued (snd (route_tool_calls tool_mapping [weather_call, bare_call, seating_call] notebook_start)) =
     [Invoke ''fake_weather_api'' [(''city'', ''Bangalore'')], Invoke ''fake_weather_api'' []]" .
  from r1 r2 key show ?thesis by blast
qed


section \<open>Facts about the check of the API key\<close>

text \<open>
  C10. The check prints a key of three characters in full, twice, and all eight
  characters of a key of eight characters: the two slices cover every key of at most
  eight characters. The line printed for the key \<open>abc\<close> is printed for no other key,
  so the line gives the key away.
\<close>

theorem api_key_check_short_key:
  "api_key_check (Some ''abc'') = ''API key found: abc...abc'' \<and>
   api_key_check (Some ''abcd1234'') = ''API key found: abcd...1234'' \<and>
   (\<forall>k. api_key_check (Some k) = ''API key found: abc...abc'' \<longrightarrow> k = ''abc'')"
proof (intro conjI allI impI)
  show "api_key_check (Some ''abc'') = ''API key found: abc...abc''"
    by (simp add: api_key_check_def)
  show "api_key_check (Some ''abcd1234'') = ''API key found: abcd...1234''"
    by (simp add: api_key_check_def)
next
  fix k
  assume out: "api_key_check (Some k) = ''API key found: abc...abc''"
  then have ne: "k \<noteq> []"
    by (auto simp: api_key_check_def)
  with out have eq: "take 4 k @ ''...'' @ drop (length k - 4) k = ''abc...abc''"
    by (simp add: api_key_check_def)
  show "k = ''abc''"
  proof (cases k)
    case Nil
    with ne show ?thesis by simp
  next
    case k1: (Cons a k')
    show ?thesis
    proof (cases k')
      case Nil
      with k1 eq show ?thesis by simp
    next
      case k2: (Cons b k'')
      show ?thesis
      proof (cases k'')
        case Nil
        with k1 k2 eq show ?thesis by simp
      next
        case k3: (Cons c k''')
        show ?thesis
        proof (cases k''')
          case Nil
          with k1 k2 k3 eq show ?thesis by simp
        next
          case (Cons d rest)
          with k1 k2 k3 eq show ?thesis by simp
        qed
      qed
    qed
  qed
qed

theorem api_key_check_short_key_witness:
  "api_key_check (Some ''abc'') = ''API key found: abc...abc'' \<and> ''abc'' = ''abc''"
  using api_key_check_short_key by blast

text \<open>
  X1. What the check does keep to: the printed line of a key that is set depends only on
  the two slices \<open>api_key[:4]\<close> and \<open>api_key[-4:]\<close>.
\<close>

theorem api_key_check_depends_on_ends:
  "take 4 k1 = take 4 k2 \<Longrightarrow> drop (length k1 - 4) k1 = drop (length k2 - 4) k2 \<Longrightarrow>
   api_key_check (Some k1) = api_key_check (Some k2)"
proof -
  assume t: "take 4 k1 = take 4 k2" and d: "drop (length k1 - 4) k1 = drop (length k2 - 4) k2"
  from t have "k1 = [] \<longleftrightarrow> k2 = []"
    by (metis take_eq_Nil zero_neq_numeral)
  with t d show ?thesis
    by (simp add: api_key_check_def)
qed

theorem api_key_check_depends_on_ends_witness:
  "take 4 ''sk-proj-0123456789abcd'' = take 4 ''sk-pXYZabcd'' \<and>
   drop (length ''sk-proj-0123456789abcd'' - 4) ''sk-proj-0123456789abcd'' =
     drop (length ''sk-pXYZabcd'' - 4) ''sk-pXYZabcd'' \<and>
   api_key_check (Some ''sk-proj-0123456789abcd'') = api_key_check (Some ''sk-pXYZabcd'') \<and>
   api_key_check (Some ''sk-pXYZabcd'') = ''API key found: sk-p...abcd''"
proof -
  have t: "take 4 ''sk-proj-0123456789abcd'' = take 4 ''sk-pXYZabcd''"
    by simp
  have d: "drop (length ''sk-proj-0123456789abcd'' - 4) ''sk-proj-0123456789abcd'' =
     drop (length ''sk-pXYZabcd'' - 4) ''sk-pXYZabcd''"
    by simp
  have v: "api_key_check (Some ''sk-pXYZabcd'') = ''API key found: sk-p...abcd''"
    by (simp add: api_key_check_def)
  from api_key_check_depends_on_ends [OF t d] t d v show ?thesis
    by blast
qed


section \<open>Facts about \<open>cosine_similarity\<close>\<close>

text \<open>
  The notebook's own function computes the similarity score of two vectors from what
  numpy returns: on the vector \<open>(3, 4)\<close> with itself, the score \<open>1\<close>.
\<close>

theorem cosine_similarity_counterexample:
  "cosine_similarity three_four [3, 4] [3, 4] = Inr 1"
  by (simp add: cosine_similarity_def three_four_def)

text \<open>
  C2, as amended. \<open>cosine_similarity\<close> of the notebook computes a similarity score of
  two vectors by calling numpy: whatever numpy's operations return, the result is
  numpy's quotient of the dot product of the two vectors and numpy's product of their
  two norms, with no condition on that product; an error raised by the dot product, by
  a norm, by the product or by the quotient is the error of the function.
\<close>

theorem cosine_similarity_is_the_quotient:
  "(\<forall>e. np_dot np vec1 vec2 = Inl e \<longrightarrow> cosine_similarity np vec1 vec2 = Inl e) \<and>
   (\<forall>dot_product. np_dot np vec1 vec2 = Inr dot_product \<longrightarrow>
      (\<forall>e. np_linalg_norm np vec1 = Inl e \<longrightarrow> cosine_similarity np vec1 vec2 = Inl e) \<and>
      (\<forall>norm_vec1. np_linalg_norm np vec1 = Inr norm_vec1 \<longrightarrow>
         (\<forall>e. np_linalg_norm np vec2 = Inl e \<longrightarrow> cosine_similarity np vec1 vec2 = Inl e) \<and>
         (\<forall>norm_vec2. np_linalg_norm np vec2 = Inr norm_vec2 \<longrightarrow>
            (\<forall>e. multiply np norm_vec1 norm_vec2 = Inl e \<longrightarrow>
               cosine_similarity np vec1 vec2 = Inl e) \<and>
            (\<forall>product. multiply np norm_vec1 norm_vec2 = Inr product \<longrightarrow>
               cosine_similarity np vec1 vec2 = true_divide np dot_product product))))"
  by (simp add: cosine_similarity_def)

text \<open>
  On the vector \<open>(3, 4)\<close> with itself the function returns what numpy's quotient
  returns for \<open>25\<close> and \<open>25\<close>; on vectors of different lengths it raises the
  \<open>ValueError\<close> of the dot product.
\<close>

theorem cosine_similarity_is_the_quotient_witness:
  "np_dot three_four [3, 4] [3, 4] = Inr 25 \<and>
   np_linalg_norm three_four [3, 4] = Inr 5 \<and>
   multiply three_four 5 5 = Inr 25 \<and>
   cosine_similarity three_four [3, 4] [3, 4] = true_divide three_four 25 25 \<and>
   np_dot misaligned [1, 2] [1, 2, 3] = Inl ValueError \<and>
   cosine_similarity misaligned [1, 2] [1, 2, 3] = Inl ValueError"
proof -
  have d: "np_dot three_four [3, 4] [3, 4] = Inr 25"
    and n: "np_linalg_norm three_four [3, 4] = Inr 5"
    and m: "multiply three_four 5 5 = Inr 25"
    by (simp_all add: three_four_def)
  have v: "np_dot misaligned [1, 2] [1, 2, 3] = Inl ValueError"
    by (simp add: misaligned_def)
  from cosine_similarity_is_the_quotient [of three_four "[3, 4]" "[3, 4]"] d n m
  have a: "cosine_similarity three_four [3, 4] [3, 4] = true_divide three_four 25 25"
    by blast
  from cosine_similarity_is_the_quotient [of misaligned "[1, 2]" "[1, 2, 3]"] v
  have b: "cosine_similarity misaligned [1, 2] [1, 2, 3] = Inl ValueError"
    by blast
  from d n m a v b show ?thesis by blast
qed


section \<open>Facts about the cell of \<open>rag_chain\<close>\<close>

lemma rag_chain_unfold:
  "rag_chain fw question called =
     (case web_base_loader fw of
        Inl e \<Rightarrow> (called @ [MakeLoader], Inl e)
      | Inr loader \<Rightarrow>
     (case load fw loader of
        Inl e \<Rightarrow> (called @ [MakeLoader, Load], Inl e)
      | Inr docs \<Rightarrow>
     (case recursive_character_text_splitter fw of
        Inl e \<Rightarrow> (called @ [MakeLoader, Load, MakeSplitter], Inl e)
      | Inr text_splitter \<Rightarrow>
     (case split_documents fw text_splitter docs of
        Inl e \<Rightarrow> (called @ [MakeLoader, Load, MakeSplitter, Split], Inl e)
      | Inr splits \<Rightarrow>
     (case openai_embeddings fw of
        Inl e \<Rightarrow> (called @ [MakeLoader, Load, MakeSplitter, Split, MakeEmbeddings], Inl e)
      | Inr embedding \<Rightarrow>
     (case from_documents fw splits embedding of
        Inl e \<Rightarrow>
          (called @ [MakeLoader, Load, MakeSplitter, Split, MakeEmbeddings, EmbedStore], Inl e)
      | Inr vectorstore \<Rightarrow>
     (case as_retriever fw vectorstore of
        Inl e \<Rightarrow>
          (called @ [MakeLoader, Load, MakeSplitter, Split, MakeEmbeddings, EmbedStore,
                     MakeRetriever], Inl e)
      | Inr retriever \<Rightarrow>
     (case hub_pull fw of
        Inl e \<Rightarrow>
          (called @ [MakeLoader, Load, MakeSplitter, Split, MakeEmbeddings, EmbedStore,
                     MakeRetriever, PullPrompt], Inl e)
      | Inr prompt \<Rightarrow>
     (case chat_openai fw of
        Inl e \<Rightarrow>
          (called @ [MakeLoader, Load, MakeSplitter, Split, MakeEmbeddings, EmbedStore,
                     MakeRetriever, PullPrompt, MakeModel], Inl e)
      | Inr llm \<Rightarrow>
     (case compose fw of
        Inl e \<Rightarrow>
          (called @ [MakeLoader, Load, MakeSplitter, Split, MakeEmbeddings, EmbedStore,
                     MakeRetriever, PullPrompt, MakeModel, Compose], Inl e)
      | Inr composed \<Rightarrow>
     (case retriever_invoke fw retriever question of
        Inl e \<Rightarrow>
          (called @ [MakeLoader, Load, MakeSplitter, Split, MakeEmbeddings, EmbedStore,
                     MakeRetriever, PullPrompt, MakeModel, Compose, Retrieve], Inl e)
      | Inr retrieved \<Rightarrow>
     (case prompt_invoke fw prompt (format_docs retrieved) question of
        Inl e \<Rightarrow>
          (called @ [MakeLoader, Load, MakeSplitter, Split, MakeEmbeddings, EmbedStore,
                     MakeRetriever, PullPrompt, MakeModel, Compose, Retrieve, Prompt], Inl e)
      | Inr prompt_value \<Rightarrow>
     (case llm_invoke fw llm prompt_value of
        Inl e \<Rightarrow>
          (called @ [MakeLoader, Load, MakeSplitter, Split, MakeEmbeddings, EmbedStore,
                     MakeRetriever, PullPrompt, MakeModel, Compose, Retrieve, Prompt,
                     Generate], Inl e)
      | Inr msg \<Rightarrow>
          (called @ [MakeLoader, Load, MakeSplitter, Split, MakeEmbeddings, EmbedStore,
                     MakeRetriever, PullPrompt, MakeModel, Compose, Retrieve, Prompt,
                     Generate, Parse],
           parser_invoke fw msg))))))))))))))"
  by (simp add: rag_chain_def and_then_def call_def split: sum.splits)

text \<open>
  A run of the cell in which every call returns makes fourteen library calls, not five,
  and the model is called on the prompt with the texts of both retrieved documents,
  joined by a blank line.
\<close>

theorem rag_chain_counterexample:
  "rag_chain echo_framework ''What is Task Decomposition?'' [] =
     ([MakeLoader, Load, MakeSplitter, Split, MakeEmbeddings, EmbedStore, MakeRetriever,
       PullPrompt, MakeModel, Compose, Retrieve, Prompt, Generate, Parse],
      Inr ''What is Task Decomposition? Task decomposition splits a task.\<newline>\<newline>Planning orders the steps.'')"
  by (simp add: rag_chain_unfold echo_framework_def two_documents_def
      question_then_context_def echo_def format_docs_def agent_post_def planning_post_def)

text \<open>
  C3, as amended. The cell is a straight line of fourteen library calls, made in the
  order of its text: the constructor of the loader, load, the constructor of the
  splitter, split, the constructor of the embeddings, embed and store (one call), the
  constructor of the retriever, the pull of the prompt, the constructor of the model,
  the composition of the chain, and inside the invocation retrieve, prompt, generate
  and parse. So the documents are loaded before they are split, the splits are embedded
  and stored before the retrieval, and the model is called on the prompt whose context
  is \<open>format_docs\<close> of the retrieved splits: their texts joined by blank lines. The cell
  handles no failure: the first call that raises ends the run with its error, after
  exactly the calls up to it; when all return, the result is what the parser returns.
\<close>

theorem rag_chain_stage_order:
  "format_docs [] = [] \<and>
   (\<forall>d. format_docs [d] = page_content d) \<and>
   (\<forall>d d' ds. format_docs (d # d' # ds) =
      page_content d @ ''\<newline>\<newline>'' @ format_docs (d' # ds)) \<and>
   (\<forall>e. web_base_loader fw = Inl e \<longrightarrow>
      rag_chain fw question [] = ([MakeLoader], Inl e)) \<and>
   (\<forall>loader. web_base_loader fw = Inr loader \<longrightarrow>
   (\<forall>e. load fw loader = Inl e \<longrightarrow>
      rag_chain fw question [] = ([MakeLoader, Load], Inl e)) \<and>
   (\<forall>docs. load fw loader = Inr docs \<longrightarrow>
   (\<forall>e. recursive_character_text_splitter fw = Inl e \<longrightarrow>
      rag_chain fw question [] = ([MakeLoader, Load, MakeSplitter], Inl e)) \<and>
   (\<forall>text_splitter. recursive_character_text_splitter fw = Inr text_splitter \<longrightarrow>
   (\<forall>e. split_documents fw text_splitter docs = Inl e \<longrightarrow>
      rag_chain fw question [] = ([MakeLoader, Load, MakeSplitter, Split], Inl e)) \<and>
   (\<forall>splits. split_documents fw text_splitter docs = Inr splits \<longrightarrow>
   (\<forall>e. openai_embeddings fw = Inl e \<longrightarrow>
      rag_chain fw question [] =
        ([MakeLoader, Load, MakeSplitter, Split, MakeEmbeddings], Inl e)) \<and>
   (\<forall>embedding. openai_embeddings fw = Inr embedding \<longrightarrow>
   (\<forall>e. from_documents fw splits embedding = Inl e \<longrightarrow>
      rag_chain fw question [] =
        ([MakeLoader, Load, MakeSplitter, Split, MakeEmbeddings, EmbedStore], Inl e)) \<and>
   (\<forall>vectorstore. from_documents fw splits embedding = Inr vectorstore \<longrightarrow>
   (\<forall>e. as_retriever fw vectorstore = Inl e \<longrightarrow>
      rag_chain fw question [] =
        ([MakeLoader, Load, MakeSplitter, Split, MakeEmbeddings, EmbedStore, MakeRetriever],
         Inl e)) \<and>
   (\<forall>retriever. as_retriever fw vectorstore = Inr retriever \<longrightarrow>
   (\<forall>e. hub_pull fw = Inl e \<longrightarrow>
      rag_chain fw question [] =
        ([MakeLoader, Load, MakeSplitter, Split, MakeEmbeddings, EmbedStore, MakeRetriever,
          PullPrompt], Inl e)) \<and>
   (\<forall>prompt. hub_pull fw = Inr prompt \<longrightarrow>
   (\<forall>e. chat_openai fw = Inl e \<longrightarrow>
      rag_chain fw question [] =
        ([MakeLoader, Load, MakeSplitter, Split, MakeEmbeddings, EmbedStore, MakeRetriever,
          PullPrompt, MakeModel], Inl e)) \<and>
   (\<forall>llm. chat_openai fw = Inr llm \<longrightarrow>
   (\<forall>e. compose fw = Inl e \<longrightarrow>
      rag_chain fw question [] =
        ([MakeLoader, Load, MakeSplitter, Split, MakeEmbeddings, EmbedStore, MakeRetriever,
          PullPrompt, MakeModel, Compose], Inl e)) \<and>
   (compose fw = Inr () \<longrightarrow>
   (\<forall>e. retriever_invoke fw retriever question = Inl e \<longrightarrow>
      rag_chain fw question [] =
        ([MakeLoader, Load, MakeSplitter, Split, MakeEmbeddings, EmbedStore, MakeRetriever,
          PullPrompt, MakeModel, Compose, Retrieve], Inl e)) \<and>
   (\<forall>retrieved. retriever_invoke fw retriever question = Inr retrieved \<longrightarrow>
   (\<forall>e. prompt_invoke fw prompt (format_docs retrieved) question = Inl e \<longrightarrow>
      rag_chain fw question [] =
        ([MakeLoader, Load, MakeSplitter, Split, MakeEmbeddings, EmbedStore, MakeRetriever,
          PullPrompt, MakeModel, Compose, Retrieve, Prompt], Inl e)) \<and>
   (\<forall>prompt_value. prompt_invoke fw prompt (format_docs retrieved) question = Inr prompt_value \<longrightarrow>
   (\<forall>e. llm_invoke fw llm prompt_value = Inl e \<longrightarrow>
      rag_chain fw question [] =
        ([MakeLoader, Load, MakeSplitter, Split, MakeEmbeddings, EmbedStore, MakeRetriever,
          PullPrompt, MakeModel, Compose, Retrieve, Prompt, Generate], Inl e)) \<and>
   (\<forall>msg. llm_invoke fw llm prompt_value = Inr msg \<longrightarrow>
      rag_chain fw question [] =
        ([MakeLoader, Load, MakeSplitter, Split, MakeEmbeddings, EmbedStore, MakeRetriever,
          PullPrompt, MakeModel, Compose, Retrieve, Prompt, Generate, Parse],
         parser_invoke fw msg))))))))))))))"
  by (simp add: rag_chain_unfold format_docs_def)

text \<open>
  A run in which every call returns and the retriever finds two documents, and a run
  without an API key, which ends in the constructor of the model.
\<close>

theorem rag_chain_stage_order_witness:
  "rag_chain echo_framework ''What is Task Decomposition?'' [] =
     ([MakeLoader, Load, MakeSplitter, Split, MakeEmbeddings, EmbedStore, MakeRetriever,
       PullPrompt, MakeModel, Compose, Retrieve, Prompt, Generate, Parse],
      Inr ''What is Task Decomposition? Task decomposition splits a task.\<newline>\<newline>Planning orders the steps.'') \<and>
   rag_chain keyless_framework ''What is Task Decomposition?'' [] =
     ([MakeLoader, Load, MakeSplitter, Split, MakeEmbeddings, EmbedStore, MakeRetriever,
       PullPrompt, MakeModel], Inl (External ''no API key'')) \<and>
   format_docs [agent_post, planning_post] =
     ''Task decomposition splits a task.\<newline>\<newline>Planning orders the steps.''"
proof -
  note order = rag_chain_stage_order [of echo_framework "''What is Task Decomposition?''"]
  note keyless = rag_chain_stage_order [of keyless_framework "''What is Task Decomposition?''"]
  from order have f: "format_docs [agent_post, planning_post] =
     ''Task decomposition splits a task.\<newline>\<newline>Planning orders the steps.''"
    by (simp add: agent_post_def planning_post_def)
  from order have a: "rag_chain echo_framework ''What is Task Decomposition?'' [] =
     ([MakeLoader, Load, MakeSplitter, Split, MakeEmbeddings, EmbedStore, MakeRetriever,
       PullPrompt, MakeModel, Compose, Retrieve, Prompt, Generate, Parse],
      Inr ''What is Task Decomposition? Task decomposition splits a task.\<newline>\<newline>Planning orders the steps.'')"
    by (simp add: echo_framework_def two_documents_def question_then_context_def echo_def
        agent_post_def planning_post_def)
  from keyless have b: "rag_chain keyless_framework ''What is Task Decomposition?'' [] =
     ([MakeLoader, Load, MakeSplitter, Split, MakeEmbeddings, EmbedStore, MakeRetriever,
       PullPrompt, MakeModel], Inl (External ''no API key''))"
    by (simp add: keyless_framework_def echo_framework_def)
  from a b f show ?thesis by blast
qed


section \<open>Facts about the cell that answers from the first search result\<close>




end
